theory Spec2Isabelle
  imports Main
begin

unbundle bit_operations_syntax

section \<open>The logger package (logger.go)\<close>

text \<open>
  The package wraps Go's \<^verbatim>\<open>log/syslog\<close>: four private package-level variables
  (the writer \<^verbatim>\<open>s\<close> and the flags \<^verbatim>\<open>debug\<close>, \<^verbatim>\<open>verbose\<close>, \<^verbatim>\<open>color\<close>), eight exported
  variables holding the colour sequences, a printer for the screen and one function
  per severity. Everything outside the
  package (syslog, the environment, isatty, the clock, standard output) is a
  collaborator: its answers are the fields of a record \<open>world\<close>, and every
  call made on it is appended, in program order, to the field \<open>effects\<close> of the state.
\<close>

subsection \<open>Constants\<close>

definition L_EMERGENCY :: int where "L_EMERGENCY = 0"
definition L_ALERT :: int where "L_ALERT = 1"
definition L_CRITICAL :: int where "L_CRITICAL = 2"
definition L_ERROR :: int where "L_ERROR = 3"
definition L_WARNING :: int where "L_WARNING = 4"
definition L_NOTICE :: int where "L_NOTICE = 5"
definition L_INFO :: int where "L_INFO = 6"
definition L_DEBUG :: int where "L_DEBUG = 7"

definition M_EMERGENCY :: string where "M_EMERGENCY = ''EMERGENCY''"
definition M_ALERT :: string where "M_ALERT = ''ALERT    ''"
definition M_CRITICAL :: string where "M_CRITICAL = ''CRITICAL ''"
definition M_ERROR :: string where "M_ERROR = ''ERROR    ''"
definition M_WARNING :: string where "M_WARNING = ''WARNING  ''"
definition M_NOTICE :: string where "M_NOTICE = ''NOTICE   ''"
definition M_INFO :: string where "M_INFO = ''INFO     ''"
definition M_DEBUG :: string where "M_DEBUG = ''DEBUG    ''"

text \<open>
  \<^verbatim>\<open>string([]byte{...})\<close>: the string whose bytes are the listed numbers. The colour
  sequences are declared with it, in the \<^verbatim>\<open>var\<close> block of the package; they are
  variables, and part of the state below.
\<close>

definition bytes_string :: "nat list \<Rightarrow> string" where
  "bytes_string bs = map char_of bs"

text \<open>
  The two \<^verbatim>\<open>log/syslog\<close> priorities that \<^verbatim>\<open>Open\<close> combines. They belong to the Go
  standard library: \<^verbatim>\<open>LOG_WARNING\<close> is the fifth severity (4) and \<^verbatim>\<open>LOG_DAEMON\<close>
  the fourth facility (3 shifted left by 3).
\<close>

definition LOG_WARNING :: int where "LOG_WARNING = 4"
definition LOG_DAEMON :: int where "LOG_DAEMON = push_bit 3 3"

subsection \<open>Errors, the writer and the collaborators\<close>

text \<open>
  A Go \<^verbatim>\<open>error\<close> value: one made by \<^verbatim>\<open>errors.New\<close> with its text, or any other
  error value a collaborator hands back. The nil error is \<open>None\<close> of \<open>error option\<close>.
\<close>

datatype error = errors_New string | foreign_error nat

text \<open>
  A \<^verbatim>\<open>*syslog.Writer\<close> is a pointer: \<open>None\<close> is nil, \<open>Some w\<close> the writer \<open>w\<close>.
  The eight severity methods of a writer are named by \<open>writer_method\<close>.
\<close>

type_synonym Writer = nat

datatype writer_method =
  W_Emerg | W_Alert | W_Crit | W_Err | W_Warning | W_Notice | W_Info | W_Debug

record world =
  syslog_New :: "int \<Rightarrow> string \<Rightarrow> error + Writer"
  Writer_Close :: "Writer \<Rightarrow> error option"
  Writer_log :: "Writer \<Rightarrow> writer_method \<Rightarrow> string \<Rightarrow> error option"
  os_Getenv :: "string \<Rightarrow> string"
  os_Stdout_Fd :: nat
  isatty_IsTerminal :: "nat \<Rightarrow> bool"
  isatty_IsCygwinTerminal :: "nat \<Rightarrow> bool"
  time_Now_RFC3339 :: string

text \<open>
  \<open>syslog_New w p tag\<close> is what \<^verbatim>\<open>syslog.New(p, tag)\<close> returns: \<open>Inl e\<close> stands for
  \<^verbatim>\<open>(nil, e)\<close> and \<open>Inr h\<close> for \<^verbatim>\<open>(h, nil)\<close>. \<open>Writer_log w h m msg\<close> is the error
  that the severity method \<open>m\<close> of the writer \<open>h\<close> returns for \<open>msg\<close>.
  \<open>time_Now_RFC3339 w\<close> is the string \<^verbatim>\<open>time.Now().Format(time.RFC3339)\<close>.
  Every function of the package takes the world of its own call, so the collaborators
  may answer differently from one call of the package to the next.
\<close>

datatype event =
    Call_syslog_New int string
  | Call_Writer_Close Writer
  | Call_Writer_log Writer writer_method string
  | Call_Getenv string
  | Call_IsTerminal nat
  | Call_IsCygwinTerminal nat
  | Call_time_Now
  | Write_Stdout string

record state =
  s :: "Writer option"
  debug :: bool
  verbose :: bool
  color :: bool
  C_BLUE :: string
  C_CYAN :: string
  C_GREEN :: string
  C_WHITE :: string
  C_YELLOW :: string
  C_MAGENTA :: string
  C_RED :: string
  C_RESET :: string
  effects :: "event list"

text \<open>
  The package variables as initialised, before any call. The four lower-case
  variables are private to the package. The eight colour variables are exported: a
  program that imports the package can assign them, and \<^verbatim>\<open>PrintToScreen\<close> reads
  their value at the time of the call.
\<close>

definition init_state :: state where
  "init_state =
    \<lparr>s = None, debug = False, verbose = False, color = True,
     C_BLUE = bytes_string [27, 91, 57, 55, 59, 52, 52, 109],
     C_CYAN = bytes_string [27, 91, 57, 55, 59, 52, 54, 109],
     C_GREEN = bytes_string [27, 91, 57, 55, 59, 52, 50, 109],
     C_WHITE = bytes_string [27, 91, 57, 48, 59, 52, 55, 109],
     C_YELLOW = bytes_string [27, 91, 57, 55, 59, 52, 51, 109],
     C_MAGENTA = bytes_string [27, 91, 57, 55, 59, 52, 53, 109],
     C_RED = bytes_string [27, 91, 57, 55, 59, 52, 49, 109],
     C_RESET = bytes_string [27, 91, 48, 109],
     effects = []\<rparr>"

definition emit :: "event \<Rightarrow> state \<Rightarrow> state" where
  "emit e st = st\<lparr>effects := effects st @ [e]\<rparr>"

text \<open>
  What a call does: it returns a value, or it panics. A method called on a nil
  \<^verbatim>\<open>*syslog.Writer\<close> dereferences the nil pointer, and the package has no guard
  against it.
\<close>

datatype 'a outcome = Return 'a | Panic_nil_dereference

subsection \<open>Open and Close\<close>

definition Open :: "world \<Rightarrow> string \<Rightarrow> state \<Rightarrow> error option \<times> state" where
  "Open w tag st =
    (if tag \<noteq> [] then
       (let st1 = emit (Call_syslog_New (LOG_WARNING OR LOG_DAEMON) tag) st in
        case syslog_New w (LOG_WARNING OR LOG_DAEMON) tag of
          Inl err \<Rightarrow> (Some err, st1\<lparr>s := None\<rparr>)
        | Inr h \<Rightarrow>
           (let st2 = emit (Call_Getenv ''TERM'') (st1\<lparr>s := Some h\<rparr>) in
            if os_Getenv w ''TERM'' = ''dumb'' then (None, st2\<lparr>color := False\<rparr>)
            else
              (let st3 = emit (Call_IsTerminal (os_Stdout_Fd w)) st2 in
               if \<not> isatty_IsTerminal w (os_Stdout_Fd w) then
                 (let st4 = emit (Call_IsCygwinTerminal (os_Stdout_Fd w)) st3 in
                  if \<not> isatty_IsCygwinTerminal w (os_Stdout_Fd w)
                  then (None, st4\<lparr>color := False\<rparr>)
                  else (None, st4))
               else (None, st3))))
     else (Some (errors_New ''logger: tag cannot be empty''), st))"

definition Close :: "world \<Rightarrow> state \<Rightarrow> error option outcome \<times> state" where
  "Close w st =
    (case s st of
       None \<Rightarrow> (Panic_nil_dereference, st)
     | Some h \<Rightarrow> (Return (Writer_Close w h), emit (Call_Writer_Close h) st))"

subsection \<open>Printing to the screen\<close>

text \<open>
  The switch of \<^verbatim>\<open>PrintToScreen\<close> has no default case: at any other level
  \<^verbatim>\<open>mColor\<close> and \<^verbatim>\<open>mHeader\<close> keep the empty string they were declared with.
  The colour variables are read from the state of the call.
\<close>

definition level_color_header :: "state \<Rightarrow> int \<Rightarrow> string \<times> string" where
  "level_color_header st level =
    (if level = L_EMERGENCY then (C_RED st, M_EMERGENCY)
     else if level = L_ALERT then (C_RED st, M_ALERT)
     else if level = L_CRITICAL then (C_YELLOW st, M_CRITICAL)
     else if level = L_ERROR then (C_YELLOW st, M_ERROR)
     else if level = L_WARNING then (C_MAGENTA st, M_WARNING)
     else if level = L_NOTICE then (C_CYAN st, M_NOTICE)
     else if level = L_INFO then (C_WHITE st, M_INFO)
     else if level = L_DEBUG then (C_GREEN st, M_DEBUG)
     else ([], []))"

text \<open>\<^verbatim>\<open>fmt.Sprintf("%s - %s%s%s %s\n", a, b, c, d, e)\<close> on five strings.\<close>

definition format_line :: "string \<Rightarrow> string \<Rightarrow> string \<Rightarrow> string \<Rightarrow> string \<Rightarrow> string" where
  "format_line a b c d e = a @ '' - '' @ b @ c @ d @ '' '' @ e @ [CHR 0x0A]"

definition PrintToScreen :: "world \<Rightarrow> int \<Rightarrow> string \<Rightarrow> state \<Rightarrow> state" where
  "PrintToScreen w level message st =
    (let (mColor0, mHeader) = level_color_header st level;
         mReset0 = C_RESET st;
         (mColor, mReset) = (if \<not> color st then ([], []) else (mColor0, mReset0));
         st1 = emit Call_time_Now st
     in emit (Write_Stdout (format_line (time_Now_RFC3339 w) mColor mHeader mReset message)) st1)"

subsection \<open>The setters\<close>

definition DisableColor :: "state \<Rightarrow> state" where
  "DisableColor st = st\<lparr>color := False\<rparr>"

definition SetDebug :: "bool \<Rightarrow> state \<Rightarrow> state" where
  "SetDebug b st = st\<lparr>debug := b\<rparr>"

definition SetVerbose :: "bool \<Rightarrow> state \<Rightarrow> state" where
  "SetVerbose b st = st\<lparr>verbose := b\<rparr>"

subsection \<open>The eight severity functions\<close>

text \<open>A severity method called on the package's writer \<^verbatim>\<open>s\<close>.\<close>

definition s_log :: "world \<Rightarrow> writer_method \<Rightarrow> string \<Rightarrow> state \<Rightarrow> error option outcome \<times> state" where
  "s_log w m message st =
    (case s st of
       None \<Rightarrow> (Panic_nil_dereference, st)
     | Some h \<Rightarrow> (Return (Writer_log w h m message), emit (Call_Writer_log h m message) st))"

definition Emergency :: "world \<Rightarrow> string \<Rightarrow> state \<Rightarrow> error option outcome \<times> state" where
  "Emergency w message st =
    (let st1 = PrintToScreen w L_EMERGENCY message st
     in s_log w W_Emerg message st1)"

definition Alert :: "world \<Rightarrow> string \<Rightarrow> state \<Rightarrow> error option outcome \<times> state" where
  "Alert w message st =
    (if debug st = True then (Return None, PrintToScreen w L_ALERT message st)
     else s_log w W_Alert message st)"

definition Critical :: "world \<Rightarrow> string \<Rightarrow> state \<Rightarrow> error option outcome \<times> state" where
  "Critical w message st =
    (if debug st = True then (Return None, PrintToScreen w L_CRITICAL message st)
     else s_log w W_Crit message st)"

definition Error :: "world \<Rightarrow> string \<Rightarrow> state \<Rightarrow> error option outcome \<times> state" where
  "Error w message st =
    (if debug st = True then (Return None, PrintToScreen w L_ERROR message st)
     else s_log w W_Err message st)"

definition Warning :: "world \<Rightarrow> string \<Rightarrow> state \<Rightarrow> error option outcome \<times> state" where
  "Warning w message st =
    (if debug st = True then (Return None, PrintToScreen w L_WARNING message st)
     else s_log w W_Warning message st)"

definition Notice :: "world \<Rightarrow> string \<Rightarrow> state \<Rightarrow> error option outcome \<times> state" where
  "Notice w message st =
    (if debug st = True then (Return None, PrintToScreen w L_NOTICE message st)
     else s_log w W_Notice message st)"

definition Info :: "world \<Rightarrow> string \<Rightarrow> state \<Rightarrow> error option outcome \<times> state" where
  "Info w message st =
    (if verbose st = True then
       (if debug st = True then (Return None, PrintToScreen w L_INFO message st)
        else s_log w W_Info message st)
     else (Return None, st))"

definition Debug :: "world \<Rightarrow> string \<Rightarrow> state \<Rightarrow> error option outcome \<times> state" where
  "Debug w message st =
    (if verbose st = True then
       (if debug st = True then (Return None, PrintToScreen w L_DEBUG message st)
        else s_log w W_Debug message st)
     else (Return None, st))"

subsection \<open>Observing the effects\<close>

text \<open>
  The strings written to standard output, the calls made on the system log and the
  queries about the terminal, each in program order. \<open>colors_as_declared\<close> holds
  when the eight colour variables have the values they were declared with, that is,
  when no importing program has assigned them. \<open>terminal_line\<close> abbreviates
  the shape of a printed line; \<open>example_world\<close> is one concrete set of collaborator
  answers, used to run the functions on concrete inputs.
\<close>

fun stdout_writes :: "event list \<Rightarrow> string list" where
  "stdout_writes [] = []"
| "stdout_writes (Write_Stdout t # es) = t # stdout_writes es"
| "stdout_writes (e # es) = stdout_writes es"

fun is_syslog_call :: "event \<Rightarrow> bool" where
  "is_syslog_call (Call_syslog_New p tag) = True"
| "is_syslog_call (Call_Writer_Close h) = True"
| "is_syslog_call (Call_Writer_log h m msg) = True"
| "is_syslog_call e = False"

definition syslog_calls :: "event list \<Rightarrow> event list" where
  "syslog_calls es = filter is_syslog_call es"

fun is_terminal_query :: "event \<Rightarrow> bool" where
  "is_terminal_query (Call_Getenv k) = True"
| "is_terminal_query (Call_IsTerminal fd) = True"
| "is_terminal_query (Call_IsCygwinTerminal fd) = True"
| "is_terminal_query e = False"

definition terminal_queries :: "event list \<Rightarrow> event list" where
  "terminal_queries es = filter is_terminal_query es"

definition color_variables :: "state \<Rightarrow> string list" where
  "color_variables st =
    [C_BLUE st, C_CYAN st, C_GREEN st, C_WHITE st, C_YELLOW st, C_MAGENTA st, C_RED st,
     C_RESET st]"

definition colors_as_declared :: "state \<Rightarrow> bool" where
  "colors_as_declared st = (color_variables st = color_variables init_state)"

abbreviation terminal_line :: "string \<Rightarrow> string \<Rightarrow> string \<Rightarrow> string \<Rightarrow> string \<Rightarrow> string" where
  "terminal_line timestamp colorPrefix label colorReset message \<equiv>
     timestamp @ '' - '' @ colorPrefix @ label @ colorReset @ '' '' @ message @ [CHR 0x0A]"

definition example_world :: world where
  "example_world =
    \<lparr>syslog_New = (\<lambda>p tag. if p = 28 then Inr 1 else Inl (errors_New ''log/syslog: invalid priority'')),
     Writer_Close = (\<lambda>h. None),
     Writer_log = (\<lambda>h m msg. if m = W_Emerg then Some (foreign_error 5) else None),
     os_Getenv = (\<lambda>k. if k = ''TERM'' then ''xterm'' else []),
     os_Stdout_Fd = 1,
     isatty_IsTerminal = (\<lambda>fd. fd = 1),
     isatty_IsCygwinTerminal = (\<lambda>fd. False),
     time_Now_RFC3339 = ''2024-01-01T00:00:00Z''\<rparr>"

section \<open>Properties\<close>

subsection \<open>Supporting lemmas\<close>

lemma stdout_writes_append: "stdout_writes (xs @ ys) = stdout_writes xs @ stdout_writes ys"
  by (induction xs rule: stdout_writes.induct) simp_all

lemma level_color_header_simps:
  "level_color_header st L_EMERGENCY = (C_RED st, M_EMERGENCY)"
  "level_color_header st L_ALERT = (C_RED st, M_ALERT)"
  "level_color_header st L_CRITICAL = (C_YELLOW st, M_CRITICAL)"
  "level_color_header st L_ERROR = (C_YELLOW st, M_ERROR)"
  "level_color_header st L_WARNING = (C_MAGENTA st, M_WARNING)"
  "level_color_header st L_NOTICE = (C_CYAN st, M_NOTICE)"
  "level_color_header st L_INFO = (C_WHITE st, M_INFO)"
  "level_color_header st L_DEBUG = (C_GREEN st, M_DEBUG)"
  by (simp_all add: level_color_header_def L_EMERGENCY_def L_ALERT_def L_CRITICAL_def
      L_ERROR_def L_WARNING_def L_NOTICE_def L_INFO_def L_DEBUG_def)

lemma PrintToScreen_eq:
  "PrintToScreen w level msg st =
     st\<lparr>effects := effects st @
        [Call_time_Now,
         Write_Stdout (terminal_line (time_Now_RFC3339 w)
           (if color st then fst (level_color_header st level) else [])
           (snd (level_color_header st level))
           (if color st then C_RESET st else []) msg)]\<rparr>"
  by (simp add: PrintToScreen_def emit_def format_line_def split: prod.split)

lemma PrintToScreen_fields:
  "s (PrintToScreen w level msg st) = s st"
  "debug (PrintToScreen w level msg st) = debug st"
  "verbose (PrintToScreen w level msg st) = verbose st"
  "color (PrintToScreen w level msg st) = color st"
  by (simp_all add: PrintToScreen_eq)

lemma s_log_Some:
  "s st = Some h \<Longrightarrow>
     s_log w m msg st =
       (Return (Writer_log w h m msg), st\<lparr>effects := effects st @ [Call_Writer_log h m msg]\<rparr>)"
  by (simp add: s_log_def emit_def)

lemma s_log_None: "s st = None \<Longrightarrow> s_log w m msg st = (Panic_nil_dereference, st)"
  by (simp add: s_log_def)

lemma s_log_fields:
  "s (snd (s_log w m msg st)) = s st"
  "color (snd (s_log w m msg st)) = color st"
  by (simp_all add: s_log_def emit_def split: option.split)

lemma priority_value: "LOG_WARNING OR LOG_DAEMON = 28"
  by (simp add: LOG_WARNING_def LOG_DAEMON_def)

lemma init_state_eq:
  "init_state =
    \<lparr>s = None, debug = False, verbose = False, color = True,
     C_BLUE = CHR 0x1B # ''[97;44m'',
     C_CYAN = CHR 0x1B # ''[97;46m'',
     C_GREEN = CHR 0x1B # ''[97;42m'',
     C_WHITE = CHR 0x1B # ''[90;47m'',
     C_YELLOW = CHR 0x1B # ''[97;43m'',
     C_MAGENTA = CHR 0x1B # ''[97;45m'',
     C_RED = CHR 0x1B # ''[97;41m'',
     C_RESET = CHR 0x1B # ''[0m'',
     effects = []\<rparr>"
  unfolding init_state_def bytes_string_def by code_simp

lemma color_sequences:
  "C_RED init_state = CHR 0x1B # ''[97;41m''"
  "C_YELLOW init_state = CHR 0x1B # ''[97;43m''"
  "C_MAGENTA init_state = CHR 0x1B # ''[97;45m''"
  "C_CYAN init_state = CHR 0x1B # ''[97;46m''"
  "C_WHITE init_state = CHR 0x1B # ''[90;47m''"
  "C_GREEN init_state = CHR 0x1B # ''[97;42m''"
  "C_BLUE init_state = CHR 0x1B # ''[97;44m''"
  "C_RESET init_state = CHR 0x1B # ''[0m''"
  by (simp_all add: init_state_eq)

lemma syslog_calls_append: "syslog_calls (xs @ ys) = syslog_calls xs @ syslog_calls ys"
  by (simp add: syslog_calls_def)

lemma terminal_queries_append:
  "terminal_queries (xs @ ys) = terminal_queries xs @ terminal_queries ys"
  by (simp add: terminal_queries_def)

lemma Open_empty_tag: "Open w [] st = (Some (errors_New ''logger: tag cannot be empty''), st)"
  by (simp add: Open_def)

lemma Open_connect_fails:
  "tag \<noteq> [] \<Longrightarrow> syslog_New w (LOG_WARNING OR LOG_DAEMON) tag = Inl e \<Longrightarrow>
     Open w tag st =
       (Some e, st\<lparr>s := None,
          effects := effects st @ [Call_syslog_New (LOG_WARNING OR LOG_DAEMON) tag]\<rparr>)"
  by (simp add: Open_def emit_def)

lemma Open_connect_succeeds:
  "tag \<noteq> [] \<Longrightarrow> syslog_New w (LOG_WARNING OR LOG_DAEMON) tag = Inr h \<Longrightarrow>
     fst (Open w tag st) = None \<and> s (snd (Open w tag st)) = Some h \<and>
     color (snd (Open w tag st)) =
       (if os_Getenv w ''TERM'' = ''dumb'' \<or>
           (\<not> isatty_IsTerminal w (os_Stdout_Fd w) \<and>
            \<not> isatty_IsCygwinTerminal w (os_Stdout_Fd w))
        then False else color st) \<and>
     syslog_calls (effects (snd (Open w tag st))) =
       syslog_calls (effects st) @ [Call_syslog_New (LOG_WARNING OR LOG_DAEMON) tag]"
  by (simp add: Open_def emit_def Let_def syslog_calls_def)

lemma Open_cases:
  obtains (empty) "tag = []"
  | (fails) e where "tag \<noteq> []" "syslog_New w (LOG_WARNING OR LOG_DAEMON) tag = Inl e"
  | (connects) h where "tag \<noteq> []" "syslog_New w (LOG_WARNING OR LOG_DAEMON) tag = Inr h"
  by (cases "syslog_New w (LOG_WARNING OR LOG_DAEMON) tag") auto

lemma Close_fields:
  "s (snd (Close w st)) = s st"
  "color (snd (Close w st)) = color st"
  by (simp_all add: Close_def emit_def split: option.split)

lemma Open_color_monotone: "\<not> color st \<Longrightarrow> \<not> color (snd (Open w tag st))"
  by (simp add: Open_def emit_def Let_def split: sum.split)

lemma example_world_fields:
  "syslog_New example_world p tag =
     (if p = 28 then Inr 1 else Inl (errors_New ''log/syslog: invalid priority''))"
  "Writer_Close example_world h = None"
  "Writer_log example_world h m msg = (if m = W_Emerg then Some (foreign_error 5) else None)"
  "os_Getenv example_world k = (if k = ''TERM'' then ''xterm'' else [])"
  "os_Stdout_Fd example_world = 1"
  "isatty_IsTerminal example_world fd = (fd = 1)"
  "isatty_IsCygwinTerminal example_world fd = False"
  "time_Now_RFC3339 example_world = ''2024-01-01T00:00:00Z''"
  by (simp_all add: example_world_def)

lemma init_state_fields:
  "s init_state = None" "debug init_state = False" "verbose init_state = False"
  "color init_state = True" "effects init_state = []"
  by (simp_all add: init_state_def)

lemma color_variables_kept:
  "color_variables (snd (Open w tag st)) = color_variables st"
  "color_variables (snd (Close w st)) = color_variables st"
  "color_variables (SetDebug b st) = color_variables st"
  "color_variables (SetVerbose b st) = color_variables st"
  "color_variables (DisableColor st) = color_variables st"
  "color_variables (PrintToScreen w level msg st) = color_variables st"
  "color_variables (snd (s_log w m msg st)) = color_variables st"
  by (simp_all add: color_variables_def Open_def Close_def SetDebug_def SetVerbose_def
      DisableColor_def PrintToScreen_eq s_log_def emit_def Let_def
      split: option.split sum.split)

lemma colors_as_declared_values:
  assumes "colors_as_declared st"
  shows "C_RED st = CHR 0x1B # ''[97;41m''" "C_YELLOW st = CHR 0x1B # ''[97;43m''"
    "C_MAGENTA st = CHR 0x1B # ''[97;45m''" "C_CYAN st = CHR 0x1B # ''[97;46m''"
    "C_WHITE st = CHR 0x1B # ''[90;47m''" "C_GREEN st = CHR 0x1B # ''[97;42m''"
    "C_BLUE st = CHR 0x1B # ''[97;44m''" "C_RESET st = CHR 0x1B # ''[0m''"
  using assms by (simp_all add: colors_as_declared_def color_variables_def color_sequences)

lemma label_lengths:
  "length M_EMERGENCY = 9" "length M_ALERT = 9" "length M_CRITICAL = 9" "length M_ERROR = 9"
  "length M_WARNING = 9" "length M_NOTICE = 9" "length M_INFO = 9" "length M_DEBUG = 9"
  by (simp_all add: M_EMERGENCY_def M_ALERT_def M_CRITICAL_def M_ERROR_def M_WARNING_def
      M_NOTICE_def M_INFO_def M_DEBUG_def)

lemma stdout_writes_PrintToScreen:
  "stdout_writes (effects (PrintToScreen w level msg st)) =
     stdout_writes (effects st) @
       [terminal_line (time_Now_RFC3339 w)
          (if color st then fst (level_color_header st level) else [])
          (snd (level_color_header st level))
          (if color st then C_RESET st else []) msg]"
  by (simp add: PrintToScreen_eq stdout_writes_append)

lemma stdout_writes_s_log:
  "stdout_writes (effects (snd (s_log w m msg st))) = stdout_writes (effects st)"
  by (simp add: s_log_def emit_def stdout_writes_append split: option.split)

lemma level_cases:
  fixes level :: int
  assumes "0 \<le> level" and "level \<le> 7"
  shows "level \<in> {L_EMERGENCY, L_ALERT, L_CRITICAL, L_ERROR, L_WARNING, L_NOTICE, L_INFO, L_DEBUG}"
  using assms
  unfolding L_EMERGENCY_def L_ALERT_def L_CRITICAL_def L_ERROR_def L_WARNING_def L_NOTICE_def
    L_INFO_def L_DEBUG_def
  by (simp, presburger)

lemma printed_line_single_newline:
  assumes ts: "CHR 0x0A \<notin> set (time_Now_RFC3339 w)" and msg: "CHR 0x0A \<notin> set msg"
    and lo: "0 \<le> level" and hi: "level \<le> 7" and decl: "colors_as_declared st"
  shows "CHR 0x0A \<notin> set (time_Now_RFC3339 w @ '' - '' @
            (if color st then fst (level_color_header st level) else []) @
            snd (level_color_header st level) @ (if color st then C_RESET st else []) @
            '' '' @ msg)"
proof -
  have hdr: "CHR 0x0A \<notin> set (fst (level_color_header st level))
      \<and> CHR 0x0A \<notin> set (snd (level_color_header st level))"
    using level_cases [OF lo hi]
    by (auto simp: level_color_header_simps colors_as_declared_values [OF decl]
        M_EMERGENCY_def M_ALERT_def M_CRITICAL_def M_ERROR_def M_WARNING_def M_NOTICE_def
        M_INFO_def M_DEBUG_def)
  have rst: "CHR 0x0A \<notin> set (C_RESET st)"
    by (simp add: colors_as_declared_values [OF decl])
  from ts msg hdr rst show ?thesis by simp
qed

text \<open>The definitions unfolded when the functions are run on a concrete input.\<close>

lemmas ex_simps = init_state_eq example_world_def M_EMERGENCY_def M_ALERT_def M_CRITICAL_def
  M_ERROR_def M_WARNING_def M_NOTICE_def M_INFO_def M_DEBUG_def

subsection \<open>The claims\<close>

text \<open>
  Claim C1. Whatever the message and the flags \<open>debug\<close> and \<open>verbose\<close>, \<open>Emergency\<close>
  writes exactly one line to standard output (also when the writer is nil): one write
  of one formatted line, whose only newline is its last character when neither the
  timestamp nor the message holds one and the colour variables are as declared
  (\<open>printed_line_single_newline\<close>). The colour prefix and the reset are the values of
  the variables \<^verbatim>\<open>C_RED\<close> and \<^verbatim>\<open>C_RESET\<close> at the time of the call. With a
  writer \<open>h\<close> in \<^verbatim>\<open>s\<close> it then calls the writer's \<^verbatim>\<open>Emerg\<close> method with the message
  and returns exactly what that call returned; the effects it adds are the clock read,
  the write and the forward, in this order, and the package variables are unchanged.
\<close>

theorem C1_Emergency_prints_and_forwards:
  "stdout_writes (effects (snd (Emergency w msg st))) =
     stdout_writes (effects st) @
       [terminal_line (time_Now_RFC3339 w) (if color st then C_RED st else []) M_EMERGENCY
          (if color st then C_RESET st else []) msg]
   \<and> (s st = Some h \<longrightarrow>
        Emergency w msg st =
          (Return (Writer_log w h W_Emerg msg),
           st\<lparr>effects := effects st @
             [Call_time_Now,
              Write_Stdout (terminal_line (time_Now_RFC3339 w) (if color st then C_RED st else [])
                 M_EMERGENCY (if color st then C_RESET st else []) msg),
              Call_Writer_log h W_Emerg msg]\<rparr>))"
  by (simp add: Emergency_def s_log_def PrintToScreen_eq level_color_header_simps emit_def
      stdout_writes_append Let_def split: option.split)

theorem C1_Emergency_witness:
  "s (init_state\<lparr>s := Some 1, debug := True\<rparr>) = Some 1 \<and>
   Emergency example_world ''disk full'' (init_state\<lparr>s := Some 1, debug := True\<rparr>) =
     (Return (Some (foreign_error 5)),
      init_state\<lparr>s := Some 1, debug := True, verbose := False, color := True,
       effects := [Call_time_Now,
         Write_Stdout (''2024-01-01T00:00:00Z - '' @ CHR 0x1B # ''[97;41mEMERGENCY'' @
            CHR 0x1B # ''[0m disk full'' @ [CHR 0x0A]),
         Call_Writer_log 1 W_Emerg ''disk full'']\<rparr>)"
  using C1_Emergency_prints_and_forwards
    [where w = example_world and msg = "''disk full''"
       and st = "init_state\<lparr>s := Some 1, debug := True\<rparr>" and h = 1]
  by (simp add: ex_simps)

text \<open>
  Claim C2. When \<open>debug\<close> is set, each of \<open>Alert\<close>, \<open>Critical\<close>, \<open>Error\<close>, \<open>Warning\<close>
  and \<open>Notice\<close> returns the nil error and adds exactly two effects: the clock read and
  one write of one line to standard output. No call on the system log is among them,
  and the writer \<^verbatim>\<open>s\<close> is not even read (the state may hold a nil writer). The colour
  prefix and the reset of the line are the values of the colour variables at the time
  of the call.
\<close>

theorem C2_debug_mode_prints_only:
  assumes "debug st"
  shows "Alert w msg st =
      (Return None, st\<lparr>effects := effects st @ [Call_time_Now,
         Write_Stdout (terminal_line (time_Now_RFC3339 w) (if color st then C_RED st else [])
           M_ALERT (if color st then C_RESET st else []) msg)]\<rparr>)
    \<and> Critical w msg st =
      (Return None, st\<lparr>effects := effects st @ [Call_time_Now,
         Write_Stdout (terminal_line (time_Now_RFC3339 w) (if color st then C_YELLOW st else [])
           M_CRITICAL (if color st then C_RESET st else []) msg)]\<rparr>)
    \<and> Error w msg st =
      (Return None, st\<lparr>effects := effects st @ [Call_time_Now,
         Write_Stdout (terminal_line (time_Now_RFC3339 w) (if color st then C_YELLOW st else [])
           M_ERROR (if color st then C_RESET st else []) msg)]\<rparr>)
    \<and> Warning w msg st =
      (Return None, st\<lparr>effects := effects st @ [Call_time_Now,
         Write_Stdout (terminal_line (time_Now_RFC3339 w) (if color st then C_MAGENTA st else [])
           M_WARNING (if color st then C_RESET st else []) msg)]\<rparr>)
    \<and> Notice w msg st =
      (Return None, st\<lparr>effects := effects st @ [Call_time_Now,
         Write_Stdout (terminal_line (time_Now_RFC3339 w) (if color st then C_CYAN st else [])
           M_NOTICE (if color st then C_RESET st else []) msg)]\<rparr>)"
  using assms
  by (simp add: Alert_def Critical_def Error_def Warning_def Notice_def PrintToScreen_eq
      level_color_header_simps)

theorem C2_debug_mode_witness:
  "debug (init_state\<lparr>debug := True, color := False\<rparr>) \<and>
   Warning example_world ''disk full'' (init_state\<lparr>debug := True, color := False\<rparr>) =
     (Return None,
      init_state\<lparr>s := None, debug := True, verbose := False, color := False,
       effects := [Call_time_Now,
         Write_Stdout (''2024-01-01T00:00:00Z - WARNING   disk full'' @ [CHR 0x0A])]\<rparr>)"
  using C2_debug_mode_prints_only
    [where w = example_world and msg = "''disk full''"
       and st = "init_state\<lparr>debug := True, color := False\<rparr>"]
  by (simp add: ex_simps)

text \<open>
  Claim C3. When \<open>debug\<close> is not set and \<^verbatim>\<open>s\<close> holds a writer \<open>h\<close>, each of \<open>Alert\<close>,
  \<open>Critical\<close>, \<open>Error\<close>, \<open>Warning\<close> and \<open>Notice\<close> calls the method of its own severity
  on \<open>h\<close> (\<^verbatim>\<open>Alert\<close>, \<^verbatim>\<open>Crit\<close>, \<^verbatim>\<open>Err\<close>, \<^verbatim>\<open>Warning\<close>, \<^verbatim>\<open>Notice\<close>) with the message,
  returns exactly that call's result, and adds no other effect: nothing is written
  to standard output.
\<close>

theorem C3_forwards_when_not_debug:
  assumes "\<not> debug st" and "s st = Some h"
  shows "Alert w msg st =
      (Return (Writer_log w h W_Alert msg),
       st\<lparr>effects := effects st @ [Call_Writer_log h W_Alert msg]\<rparr>)
    \<and> Critical w msg st =
      (Return (Writer_log w h W_Crit msg),
       st\<lparr>effects := effects st @ [Call_Writer_log h W_Crit msg]\<rparr>)
    \<and> Error w msg st =
      (Return (Writer_log w h W_Err msg),
       st\<lparr>effects := effects st @ [Call_Writer_log h W_Err msg]\<rparr>)
    \<and> Warning w msg st =
      (Return (Writer_log w h W_Warning msg),
       st\<lparr>effects := effects st @ [Call_Writer_log h W_Warning msg]\<rparr>)
    \<and> Notice w msg st =
      (Return (Writer_log w h W_Notice msg),
       st\<lparr>effects := effects st @ [Call_Writer_log h W_Notice msg]\<rparr>)"
  using assms
  by (simp add: Alert_def Critical_def Error_def Warning_def Notice_def s_log_Some)

theorem C3_forwards_witness:
  "\<not> debug (init_state\<lparr>s := Some 1\<rparr>) \<and> s (init_state\<lparr>s := Some 1\<rparr>) = Some 1 \<and>
   Error (example_world\<lparr>Writer_log := \<lambda>h m msg. if m = W_Err then Some (foreign_error 9) else None\<rparr>)
       ''disk full'' (init_state\<lparr>s := Some 1\<rparr>) =
     (Return (Some (foreign_error 9)),
      init_state\<lparr>s := Some 1, debug := False, verbose := False, color := True,
       effects := [Call_Writer_log 1 W_Err ''disk full'']\<rparr>)"
  using C3_forwards_when_not_debug
    [where w = "example_world\<lparr>Writer_log := \<lambda>h m msg. if m = W_Err then Some (foreign_error 9) else None\<rparr>"
       and msg = "''disk full''" and st = "init_state\<lparr>s := Some 1\<rparr>" and h = 1]
  by (simp add: ex_simps)

text \<open>
  Claim C4. \<open>Info\<close> and \<open>Debug\<close>: when \<open>verbose\<close> is not set they return the nil error and
  leave the state as it is (no output, no call on the system log), whatever \<open>debug\<close>
  is. When \<open>verbose\<close> is set they choose the sink as the other severities do: with
  \<open>debug\<close> set, one line on standard output (coloured with the values of \<^verbatim>\<open>C_WHITE\<close>,
  \<^verbatim>\<open>C_GREEN\<close> and \<^verbatim>\<open>C_RESET\<close> at the time of the call) and the nil error; otherwise, with a writer
  \<open>h\<close> in \<^verbatim>\<open>s\<close>, the call of \<^verbatim>\<open>Info\<close> or \<^verbatim>\<open>Debug\<close> on \<open>h\<close>, whose result is returned.
\<close>

theorem C4_Info_Debug_verbose_gate:
  "(\<not> verbose st \<longrightarrow>
      Info w msg st = (Return None, st) \<and> Debug w msg st = (Return None, st))
   \<and> (verbose st \<and> debug st \<longrightarrow>
      Info w msg st =
        (Return None, st\<lparr>effects := effects st @ [Call_time_Now,
           Write_Stdout (terminal_line (time_Now_RFC3339 w) (if color st then C_WHITE st else [])
             M_INFO (if color st then C_RESET st else []) msg)]\<rparr>)
      \<and> Debug w msg st =
        (Return None, st\<lparr>effects := effects st @ [Call_time_Now,
           Write_Stdout (terminal_line (time_Now_RFC3339 w) (if color st then C_GREEN st else [])
             M_DEBUG (if color st then C_RESET st else []) msg)]\<rparr>))
   \<and> (verbose st \<and> \<not> debug st \<and> s st = Some h \<longrightarrow>
      Info w msg st =
        (Return (Writer_log w h W_Info msg),
         st\<lparr>effects := effects st @ [Call_Writer_log h W_Info msg]\<rparr>)
      \<and> Debug w msg st =
        (Return (Writer_log w h W_Debug msg),
         st\<lparr>effects := effects st @ [Call_Writer_log h W_Debug msg]\<rparr>))"
  by (simp add: Info_def Debug_def s_log_Some PrintToScreen_eq level_color_header_simps)

theorem C4_Info_Debug_witness:
  "\<not> verbose (init_state\<lparr>debug := True\<rparr>) \<and>
   Info example_world ''x'' (init_state\<lparr>debug := True\<rparr>) =
     (Return None, init_state\<lparr>debug := True\<rparr>) \<and>
   Debug example_world ''x'' (init_state\<lparr>debug := True\<rparr>) =
     (Return None, init_state\<lparr>debug := True\<rparr>) \<and>
   verbose (init_state\<lparr>s := Some 1, verbose := True, debug := True\<rparr>) \<and>
   debug (init_state\<lparr>s := Some 1, verbose := True, debug := True\<rparr>) \<and>
   Debug example_world ''x'' (init_state\<lparr>s := Some 1, verbose := True, debug := True\<rparr>) =
     (Return None,
      init_state\<lparr>s := Some 1, debug := True, verbose := True, color := True,
       effects := [Call_time_Now,
         Write_Stdout (''2024-01-01T00:00:00Z - '' @ CHR 0x1B # ''[97;42mDEBUG    '' @
            CHR 0x1B # ''[0m x'' @ [CHR 0x0A])]\<rparr>) \<and>
   verbose (init_state\<lparr>s := Some 1, verbose := True\<rparr>) \<and>
   \<not> debug (init_state\<lparr>s := Some 1, verbose := True\<rparr>) \<and>
   s (init_state\<lparr>s := Some 1, verbose := True\<rparr>) = Some 1 \<and>
   Debug example_world ''x'' (init_state\<lparr>s := Some 1, verbose := True\<rparr>) =
     (Return None,
      init_state\<lparr>s := Some 1, debug := False, verbose := True, color := True,
       effects := [Call_Writer_log 1 W_Debug ''x'']\<rparr>)"
  using
    C4_Info_Debug_verbose_gate
      [where w = example_world and msg = "''x''" and st = "init_state\<lparr>debug := True\<rparr>"]
    C4_Info_Debug_verbose_gate
      [where w = example_world and msg = "''x''"
         and st = "init_state\<lparr>s := Some 1, verbose := True, debug := True\<rparr>"]
    C4_Info_Debug_verbose_gate
      [where w = example_world and msg = "''x''"
         and st = "init_state\<lparr>s := Some 1, verbose := True\<rparr>" and h = 1]
  by (simp add: ex_simps)

text \<open>
  Claim C5. \<open>Open\<close> with the empty tag returns the error made by
  \<^verbatim>\<open>errors.New("logger: tag cannot be empty")\<close> and leaves the whole state, the effects
  included, as it was: \<^verbatim>\<open>syslog.New\<close> is not called. With a tag that is not empty the
  only call \<open>Open\<close> makes on the system log is \<^verbatim>\<open>syslog.New\<close> with the priority
  \<^verbatim>\<open>LOG_WARNING|LOG_DAEMON\<close> (severity 4, facility 24) and the tag; when that call fails
  with an error, \<open>Open\<close> returns this very error.
\<close>

theorem C5_Open_tag_and_connect:
  "Open w [] st = (Some (errors_New ''logger: tag cannot be empty''), st)
   \<and> (tag \<noteq> [] \<longrightarrow>
        syslog_calls (effects (snd (Open w tag st))) =
          syslog_calls (effects st) @ [Call_syslog_New (LOG_WARNING OR LOG_DAEMON) tag])
   \<and> (tag \<noteq> [] \<and> syslog_New w (LOG_WARNING OR LOG_DAEMON) tag = Inl e \<longrightarrow>
        Open w tag st =
          (Some e, st\<lparr>s := None,
             effects := effects st @ [Call_syslog_New (LOG_WARNING OR LOG_DAEMON) tag]\<rparr>))
   \<and> LOG_WARNING = 4 \<and> LOG_DAEMON = 24"
proof (intro conjI impI)
  show "Open w [] st = (Some (errors_New ''logger: tag cannot be empty''), st)"
    by (rule Open_empty_tag)
next
  assume ne: "tag \<noteq> []"
  show "syslog_calls (effects (snd (Open w tag st))) =
          syslog_calls (effects st) @ [Call_syslog_New (LOG_WARNING OR LOG_DAEMON) tag]"
  proof (cases "syslog_New w (LOG_WARNING OR LOG_DAEMON) tag")
    case (Inl e)
    with ne show ?thesis by (simp add: Open_connect_fails syslog_calls_def)
  next
    case (Inr h)
    with ne show ?thesis by (simp add: Open_connect_succeeds)
  qed
next
  assume "tag \<noteq> [] \<and> syslog_New w (LOG_WARNING OR LOG_DAEMON) tag = Inl e"
  then show "Open w tag st =
          (Some e, st\<lparr>s := None,
             effects := effects st @ [Call_syslog_New (LOG_WARNING OR LOG_DAEMON) tag]\<rparr>)"
    by (simp add: Open_connect_fails)
next
  show "LOG_WARNING = 4" by (simp add: LOG_WARNING_def)
next
  show "LOG_DAEMON = 24" by (simp add: LOG_DAEMON_def)
qed

theorem C5_Open_witness:
  "Open example_world [] init_state = (Some (errors_New ''logger: tag cannot be empty''), init_state) \<and>
   ''svc'' \<noteq> [] \<and>
   syslog_calls (effects (snd (Open example_world ''svc'' init_state))) = [Call_syslog_New 28 ''svc''] \<and>
   syslog_New (example_world\<lparr>syslog_New := \<lambda>p tag. Inl (foreign_error 2)\<rparr>)
     (LOG_WARNING OR LOG_DAEMON) ''svc'' = Inl (foreign_error 2) \<and>
   Open (example_world\<lparr>syslog_New := \<lambda>p tag. Inl (foreign_error 2)\<rparr>) ''svc'' init_state =
     (Some (foreign_error 2),
      init_state\<lparr>s := None, debug := False, verbose := False, color := True,
       effects := [Call_syslog_New 28 ''svc'']\<rparr>)"
  using
    C5_Open_tag_and_connect [where w = example_world and tag = "''svc''" and st = init_state]
    C5_Open_tag_and_connect
      [where w = "example_world\<lparr>syslog_New := \<lambda>p tag. Inl (foreign_error 2)\<rparr>"
         and tag = "''svc''" and st = init_state and e = "foreign_error 2"]
  by (simp add: ex_simps syslog_calls_def priority_value)

text \<open>
  Claim C6, as amended. The line that each of the eight severity functions writes,
  when it writes, is the timestamp, \<open>'' - ''\<close>, the colour prefix, the label, the
  colour reset, a space, the message and a newline. Prefix and reset are empty when
  \<open>color\<close> is unset; otherwise the prefix is the value, at the time of the call, of
  the package variable mapped to the severity: \<^verbatim>\<open>C_RED\<close> for Emergency and Alert,
  \<^verbatim>\<open>C_YELLOW\<close> for Critical and Error, \<^verbatim>\<open>C_MAGENTA\<close> for Warning, \<^verbatim>\<open>C_CYAN\<close> for
  Notice, \<^verbatim>\<open>C_WHITE\<close> for Info and \<^verbatim>\<open>C_GREEN\<close> for Debug, and the reset is the value of
  \<^verbatim>\<open>C_RESET\<close> for all. While these variables hold the values they were declared with,
  they are the escape sequences \<^verbatim>\<open>ESC[97;41m\<close> (red), \<^verbatim>\<open>ESC[97;43m\<close> (yellow),
  \<^verbatim>\<open>ESC[97;45m\<close> (magenta), \<^verbatim>\<open>ESC[97;46m\<close> (cyan), \<^verbatim>\<open>ESC[90;47m\<close> (white),
  \<^verbatim>\<open>ESC[97;42m\<close> (green) and \<^verbatim>\<open>ESC[0m\<close> (reset), and no operation of the package
  assigns them. Every label has exactly 9 characters. (\<open>Emergency\<close> writes always, the
  next five when \<open>debug\<close> is set, \<open>Info\<close> and \<open>Debug\<close> when \<open>verbose\<close> and \<open>debug\<close> are
  set.) The timestamp is the string \<^verbatim>\<open>time.Now().Format(time.RFC3339)\<close>.
\<close>

theorem C6_terminal_line_format:
  "stdout_writes (effects (snd (Emergency w msg st))) =
      stdout_writes (effects st) @
        [terminal_line (time_Now_RFC3339 w) (if color st then C_RED st else []) ''EMERGENCY''
           (if color st then C_RESET st else []) msg]
   \<and> (debug st \<longrightarrow>
        stdout_writes (effects (snd (Alert w msg st))) =
          stdout_writes (effects st) @
            [terminal_line (time_Now_RFC3339 w) (if color st then C_RED st else []) ''ALERT    ''
               (if color st then C_RESET st else []) msg]
      \<and> stdout_writes (effects (snd (Critical w msg st))) =
          stdout_writes (effects st) @
            [terminal_line (time_Now_RFC3339 w) (if color st then C_YELLOW st else []) ''CRITICAL ''
               (if color st then C_RESET st else []) msg]
      \<and> stdout_writes (effects (snd (Error w msg st))) =
          stdout_writes (effects st) @
            [terminal_line (time_Now_RFC3339 w) (if color st then C_YELLOW st else []) ''ERROR    ''
               (if color st then C_RESET st else []) msg]
      \<and> stdout_writes (effects (snd (Warning w msg st))) =
          stdout_writes (effects st) @
            [terminal_line (time_Now_RFC3339 w) (if color st then C_MAGENTA st else []) ''WARNING  ''
               (if color st then C_RESET st else []) msg]
      \<and> stdout_writes (effects (snd (Notice w msg st))) =
          stdout_writes (effects st) @
            [terminal_line (time_Now_RFC3339 w) (if color st then C_CYAN st else []) ''NOTICE   ''
               (if color st then C_RESET st else []) msg])
   \<and> (verbose st \<and> debug st \<longrightarrow>
        stdout_writes (effects (snd (Info w msg st))) =
          stdout_writes (effects st) @
            [terminal_line (time_Now_RFC3339 w) (if color st then C_WHITE st else []) ''INFO     ''
               (if color st then C_RESET st else []) msg]
      \<and> stdout_writes (effects (snd (Debug w msg st))) =
          stdout_writes (effects st) @
            [terminal_line (time_Now_RFC3339 w) (if color st then C_GREEN st else []) ''DEBUG    ''
               (if color st then C_RESET st else []) msg])
   \<and> (colors_as_declared st \<longrightarrow>
        C_RED st = CHR 0x1B # ''[97;41m'' \<and> C_YELLOW st = CHR 0x1B # ''[97;43m''
      \<and> C_MAGENTA st = CHR 0x1B # ''[97;45m'' \<and> C_CYAN st = CHR 0x1B # ''[97;46m''
      \<and> C_WHITE st = CHR 0x1B # ''[90;47m'' \<and> C_GREEN st = CHR 0x1B # ''[97;42m''
      \<and> C_RESET st = CHR 0x1B # ''[0m'')
   \<and> length M_EMERGENCY = 9 \<and> length M_ALERT = 9 \<and> length M_CRITICAL = 9
   \<and> length M_ERROR = 9 \<and> length M_WARNING = 9 \<and> length M_NOTICE = 9
   \<and> length M_INFO = 9 \<and> length M_DEBUG = 9
   \<and> (color_variables (snd (Open w tag st)) = color_variables st
      \<and> color_variables (snd (Close w st)) = color_variables st
      \<and> color_variables (SetDebug b st) = color_variables st
      \<and> color_variables (SetVerbose b st) = color_variables st
      \<and> color_variables (DisableColor st) = color_variables st
      \<and> color_variables (PrintToScreen w level msg st) = color_variables st
      \<and> color_variables (snd (Emergency w msg st)) = color_variables st
      \<and> color_variables (snd (Alert w msg st)) = color_variables st
      \<and> color_variables (snd (Critical w msg st)) = color_variables st
      \<and> color_variables (snd (Error w msg st)) = color_variables st
      \<and> color_variables (snd (Warning w msg st)) = color_variables st
      \<and> color_variables (snd (Notice w msg st)) = color_variables st
      \<and> color_variables (snd (Info w msg st)) = color_variables st
      \<and> color_variables (snd (Debug w msg st)) = color_variables st)"
proof -
  have emergency: "stdout_writes (effects (snd (Emergency w msg st))) =
      stdout_writes (effects st) @
        [terminal_line (time_Now_RFC3339 w) (if color st then C_RED st else []) ''EMERGENCY''
           (if color st then C_RESET st else []) msg]"
    by (simp add: Emergency_def stdout_writes_s_log stdout_writes_PrintToScreen
        level_color_header_simps M_EMERGENCY_def)
  have five: "debug st \<longrightarrow>
        stdout_writes (effects (snd (Alert w msg st))) =
          stdout_writes (effects st) @
            [terminal_line (time_Now_RFC3339 w) (if color st then C_RED st else []) ''ALERT    ''
               (if color st then C_RESET st else []) msg]
      \<and> stdout_writes (effects (snd (Critical w msg st))) =
          stdout_writes (effects st) @
            [terminal_line (time_Now_RFC3339 w) (if color st then C_YELLOW st else []) ''CRITICAL ''
               (if color st then C_RESET st else []) msg]
      \<and> stdout_writes (effects (snd (Error w msg st))) =
          stdout_writes (effects st) @
            [terminal_line (time_Now_RFC3339 w) (if color st then C_YELLOW st else []) ''ERROR    ''
               (if color st then C_RESET st else []) msg]
      \<and> stdout_writes (effects (snd (Warning w msg st))) =
          stdout_writes (effects st) @
            [terminal_line (time_Now_RFC3339 w) (if color st then C_MAGENTA st else []) ''WARNING  ''
               (if color st then C_RESET st else []) msg]
      \<and> stdout_writes (effects (snd (Notice w msg st))) =
          stdout_writes (effects st) @
            [terminal_line (time_Now_RFC3339 w) (if color st then C_CYAN st else []) ''NOTICE   ''
               (if color st then C_RESET st else []) msg]"
    by (simp add: Alert_def Critical_def Error_def Warning_def Notice_def
        stdout_writes_PrintToScreen level_color_header_simps
        M_ALERT_def M_CRITICAL_def M_ERROR_def M_WARNING_def M_NOTICE_def)
  have two: "verbose st \<and> debug st \<longrightarrow>
        stdout_writes (effects (snd (Info w msg st))) =
          stdout_writes (effects st) @
            [terminal_line (time_Now_RFC3339 w) (if color st then C_WHITE st else []) ''INFO     ''
               (if color st then C_RESET st else []) msg]
      \<and> stdout_writes (effects (snd (Debug w msg st))) =
          stdout_writes (effects st) @
            [terminal_line (time_Now_RFC3339 w) (if color st then C_GREEN st else []) ''DEBUG    ''
               (if color st then C_RESET st else []) msg]"
    by (simp add: Info_def Debug_def stdout_writes_PrintToScreen level_color_header_simps
        M_INFO_def M_DEBUG_def)
  have declared: "colors_as_declared st \<longrightarrow>
        C_RED st = CHR 0x1B # ''[97;41m'' \<and> C_YELLOW st = CHR 0x1B # ''[97;43m''
      \<and> C_MAGENTA st = CHR 0x1B # ''[97;45m'' \<and> C_CYAN st = CHR 0x1B # ''[97;46m''
      \<and> C_WHITE st = CHR 0x1B # ''[90;47m'' \<and> C_GREEN st = CHR 0x1B # ''[97;42m''
      \<and> C_RESET st = CHR 0x1B # ''[0m''"
    by (simp add: colors_as_declared_values)
  have kept: "color_variables (snd (Open w tag st)) = color_variables st
      \<and> color_variables (snd (Close w st)) = color_variables st
      \<and> color_variables (SetDebug b st) = color_variables st
      \<and> color_variables (SetVerbose b st) = color_variables st
      \<and> color_variables (DisableColor st) = color_variables st
      \<and> color_variables (PrintToScreen w level msg st) = color_variables st
      \<and> color_variables (snd (Emergency w msg st)) = color_variables st
      \<and> color_variables (snd (Alert w msg st)) = color_variables st
      \<and> color_variables (snd (Critical w msg st)) = color_variables st
      \<and> color_variables (snd (Error w msg st)) = color_variables st
      \<and> color_variables (snd (Warning w msg st)) = color_variables st
      \<and> color_variables (snd (Notice w msg st)) = color_variables st
      \<and> color_variables (snd (Info w msg st)) = color_variables st
      \<and> color_variables (snd (Debug w msg st)) = color_variables st"
    by (simp add: Emergency_def Alert_def Critical_def Error_def Warning_def Notice_def
        Info_def Debug_def color_variables_kept)
  from emergency five two declared label_lengths kept show ?thesis by blast
qed

theorem C6_terminal_line_witness:
  "debug (SetDebug True (SetVerbose True (snd (Open example_world ''svc'' init_state)))) \<and>
   verbose (SetDebug True (SetVerbose True (snd (Open example_world ''svc'' init_state)))) \<and>
   colors_as_declared
     (SetDebug True (SetVerbose True (snd (Open example_world ''svc'' init_state)))) \<and>
   stdout_writes (effects (snd (Warning example_world ''disk full''
      (SetDebug True (SetVerbose True (snd (Open example_world ''svc'' init_state))))))) =
     [''2024-01-01T00:00:00Z - '' @ CHR 0x1B # ''[97;45mWARNING  '' @ CHR 0x1B # ''[0m disk full'' @
        [CHR 0x0A]] \<and>
   stdout_writes (effects (snd (Debug example_world ''x''
      (DisableColor (SetDebug True (SetVerbose True
         (snd (Open example_world ''svc'' init_state)))))))) =
     [''2024-01-01T00:00:00Z - DEBUG     x'' @ [CHR 0x0A]]"
proof -
  have st: "Open example_world ''svc'' init_state =
     (None, init_state\<lparr>s := Some 1,
        effects := [Call_syslog_New 28 ''svc'', Call_Getenv ''TERM'', Call_IsTerminal 1]\<rparr>)"
    by (simp add: Open_def emit_def ex_simps priority_value)
  have decl: "colors_as_declared
     (SetDebug True (SetVerbose True (snd (Open example_world ''svc'' init_state))))"
    by (simp add: colors_as_declared_def color_variables_kept)
  from
    C6_terminal_line_format [where w = example_world and msg = "''disk full''"
      and st = "SetDebug True (SetVerbose True (snd (Open example_world ''svc'' init_state)))"]
    C6_terminal_line_format [where w = example_world and msg = "''x''"
      and st = "DisableColor (SetDebug True (SetVerbose True
         (snd (Open example_world ''svc'' init_state))))"]
    decl
  show ?thesis
    by (simp add: st SetDebug_def SetVerbose_def DisableColor_def example_world_fields
        init_state_fields)
qed

text \<open>
  Claim C6 as first stated, with the prefix fixed to the escape sequence of the
  colour, fails once an importing program has assigned a colour variable: with
  \<^verbatim>\<open>C_MAGENTA = "<M>"\<close> and \<^verbatim>\<open>C_RESET = "<R>"\<close>, \<open>Warning\<close> in debug mode writes these
  strings around the label, not \<^verbatim>\<open>ESC[97;45m\<close> and \<^verbatim>\<open>ESC[0m\<close>.
\<close>

theorem C6_assigned_color_counterexample:
  "stdout_writes (effects (snd (Warning example_world ''disk full''
      (init_state\<lparr>debug := True, C_MAGENTA := ''<M>'', C_RESET := ''<R>''\<rparr>)))) =
     [''2024-01-01T00:00:00Z - <M>WARNING  <R> disk full'' @ [CHR 0x0A]]
   \<and> stdout_writes (effects (snd (Warning example_world ''disk full''
      (init_state\<lparr>debug := True, C_MAGENTA := ''<M>'', C_RESET := ''<R>''\<rparr>)))) \<noteq>
     stdout_writes (effects (init_state\<lparr>debug := True, C_MAGENTA := ''<M>'', C_RESET := ''<R>''\<rparr>)) @
     [terminal_line (time_Now_RFC3339 example_world) (CHR 0x1B # ''[97;45m'') ''WARNING  ''
        (CHR 0x1B # ''[0m'') ''disk full'']"
  by (simp add: Warning_def stdout_writes_PrintToScreen level_color_header_simps
      example_world_fields init_state_fields M_WARNING_def)

text \<open>
  Claim C7. After an \<open>Open\<close> that returned the nil error, \<open>color\<close> is false when the
  environment variable \<^verbatim>\<open>TERM\<close> is \<^verbatim>\<open>dumb\<close>, or when standard output is neither a
  terminal nor a Cygwin terminal; in every other case \<open>color\<close> has the value it had
  before the call. \<open>Open\<close> never sets it to true.
\<close>

theorem C7_Open_color_detection:
  assumes "Open w tag st = (None, st')"
  shows "color st' =
    (if os_Getenv w ''TERM'' = ''dumb'' \<or>
        (\<not> isatty_IsTerminal w (os_Stdout_Fd w) \<and> \<not> isatty_IsCygwinTerminal w (os_Stdout_Fd w))
     then False else color st)"
proof (cases rule: Open_cases [where tag = tag and w = w])
  case empty
  with assms show ?thesis by (simp add: Open_empty_tag)
next
  case (fails e)
  with assms show ?thesis by (simp add: Open_connect_fails)
next
  case (connects h)
  from Open_connect_succeeds [OF connects, of st] assms show ?thesis by simp
qed

theorem C7_Open_color_witness:
  "Open example_world ''svc'' init_state =
     (None, init_state\<lparr>s := Some 1, debug := False, verbose := False, color := True,
        effects := [Call_syslog_New 28 ''svc'', Call_Getenv ''TERM'', Call_IsTerminal 1]\<rparr>) \<and>
   Open (example_world\<lparr>isatty_IsTerminal := \<lambda>fd. False\<rparr>) ''svc'' init_state =
     (None, init_state\<lparr>s := Some 1, debug := False, verbose := False, color := False,
        effects := [Call_syslog_New 28 ''svc'', Call_Getenv ''TERM'', Call_IsTerminal 1,
                   Call_IsCygwinTerminal 1]\<rparr>) \<and>
   color (snd (Open example_world ''svc'' init_state)) \<and>
   \<not> color (snd (Open (example_world\<lparr>isatty_IsTerminal := \<lambda>fd. False\<rparr>) ''svc'' init_state))"
proof -
  have a: "Open example_world ''svc'' init_state =
     (None, init_state\<lparr>s := Some 1, debug := False, verbose := False, color := True,
        effects := [Call_syslog_New 28 ''svc'', Call_Getenv ''TERM'', Call_IsTerminal 1]\<rparr>)"
    by (simp add: Open_def emit_def ex_simps priority_value)
  have b: "Open (example_world\<lparr>isatty_IsTerminal := \<lambda>fd. False\<rparr>) ''svc'' init_state =
     (None, init_state\<lparr>s := Some 1, debug := False, verbose := False, color := False,
        effects := [Call_syslog_New 28 ''svc'', Call_Getenv ''TERM'', Call_IsTerminal 1,
                   Call_IsCygwinTerminal 1]\<rparr>)"
    by (simp add: Open_def emit_def ex_simps priority_value)
  from C7_Open_color_detection [OF a] C7_Open_color_detection [OF b] a b
  show ?thesis by (simp add: ex_simps)
qed

text \<open>
  Claim C8. No operation of the package turns colour back on: if \<open>color\<close> is false
  before \<open>Open\<close>, \<open>Close\<close>, \<open>SetDebug\<close>, \<open>SetVerbose\<close>, \<open>DisableColor\<close>, \<open>PrintToScreen\<close>
  or any of the eight severity functions, it is false afterwards.
\<close>

theorem C8_color_never_reenabled:
  assumes "\<not> color st"
  shows "\<not> color (snd (Open w tag st))
    \<and> \<not> color (snd (Close w st))
    \<and> \<not> color (SetDebug b st)
    \<and> \<not> color (SetVerbose b st)
    \<and> \<not> color (DisableColor st)
    \<and> \<not> color (PrintToScreen w level msg st)
    \<and> \<not> color (snd (Emergency w msg st))
    \<and> \<not> color (snd (Alert w msg st))
    \<and> \<not> color (snd (Critical w msg st))
    \<and> \<not> color (snd (Error w msg st))
    \<and> \<not> color (snd (Warning w msg st))
    \<and> \<not> color (snd (Notice w msg st))
    \<and> \<not> color (snd (Info w msg st))
    \<and> \<not> color (snd (Debug w msg st))"
  using assms
  by (simp add: Open_color_monotone Close_fields SetDebug_def SetVerbose_def DisableColor_def
      PrintToScreen_fields s_log_fields Emergency_def Alert_def Critical_def Error_def
      Warning_def Notice_def Info_def Debug_def)

theorem C8_color_witness:
  "\<not> color (DisableColor init_state) \<and>
   \<not> color (snd (Open example_world ''svc'' (DisableColor init_state))) \<and>
   \<not> color (snd (Emergency example_world ''x'' (DisableColor init_state))) \<and>
   \<not> color (SetDebug True (DisableColor init_state))"
  using C8_color_never_reenabled
    [where st = "DisableColor init_state" and w = example_world and tag = "''svc''"
       and msg = "''x''" and b = True]
  by (simp add: DisableColor_def init_state_def)

text \<open>
  Claim C9. An \<open>Open\<close> that returns the nil error leaves a writer in \<^verbatim>\<open>s\<close>. While
  \<^verbatim>\<open>s\<close> holds a writer, neither \<open>Close\<close> nor any of the eight severity functions
  dereferences a nil pointer, and none of them, nor any setter, changes \<^verbatim>\<open>s\<close> (only
  an \<open>Open\<close> whose connection fails resets it to nil, see \<open>Open_connect_fails\<close>). The
  code has no guard: with a nil \<^verbatim>\<open>s\<close>, \<open>Close\<close> and \<open>Emergency\<close> panic, and so do the other
  severity functions on their forwarding path.
\<close>

theorem C9_present_writer_never_nil_dereference:
  "(fst (Open w tag st) = None \<longrightarrow> s (snd (Open w tag st)) \<noteq> None)
   \<and> (s st \<noteq> None \<longrightarrow>
        fst (Close w st) \<noteq> Panic_nil_dereference
      \<and> fst (Emergency w msg st) \<noteq> Panic_nil_dereference
      \<and> fst (Alert w msg st) \<noteq> Panic_nil_dereference
      \<and> fst (Critical w msg st) \<noteq> Panic_nil_dereference
      \<and> fst (Error w msg st) \<noteq> Panic_nil_dereference
      \<and> fst (Warning w msg st) \<noteq> Panic_nil_dereference
      \<and> fst (Notice w msg st) \<noteq> Panic_nil_dereference
      \<and> fst (Info w msg st) \<noteq> Panic_nil_dereference
      \<and> fst (Debug w msg st) \<noteq> Panic_nil_dereference
      \<and> s (snd (Close w st)) = s st
      \<and> s (snd (Emergency w msg st)) = s st
      \<and> s (snd (Alert w msg st)) = s st
      \<and> s (snd (Critical w msg st)) = s st
      \<and> s (snd (Error w msg st)) = s st
      \<and> s (snd (Warning w msg st)) = s st
      \<and> s (snd (Notice w msg st)) = s st
      \<and> s (snd (Info w msg st)) = s st
      \<and> s (snd (Debug w msg st)) = s st
      \<and> s (SetDebug b st) = s st \<and> s (SetVerbose b st) = s st \<and> s (DisableColor st) = s st)
   \<and> (s st = None \<longrightarrow>
        fst (Close w st) = Panic_nil_dereference
      \<and> fst (Emergency w msg st) = Panic_nil_dereference
      \<and> (\<not> debug st \<longrightarrow>
            fst (Alert w msg st) = Panic_nil_dereference
          \<and> fst (Critical w msg st) = Panic_nil_dereference
          \<and> fst (Error w msg st) = Panic_nil_dereference
          \<and> fst (Warning w msg st) = Panic_nil_dereference
          \<and> fst (Notice w msg st) = Panic_nil_dereference)
      \<and> (verbose st \<and> \<not> debug st \<longrightarrow>
            fst (Info w msg st) = Panic_nil_dereference
          \<and> fst (Debug w msg st) = Panic_nil_dereference))"
proof (intro conjI)
  show "fst (Open w tag st) = None \<longrightarrow> s (snd (Open w tag st)) \<noteq> None"
  proof (cases rule: Open_cases [where tag = tag and w = w])
    case empty
    then show ?thesis by (simp add: Open_empty_tag)
  next
    case (fails e)
    then show ?thesis by (simp add: Open_connect_fails)
  next
    case (connects h)
    from Open_connect_succeeds [OF connects, of st] show ?thesis by simp
  qed
next
  show "s st \<noteq> None \<longrightarrow>
        fst (Close w st) \<noteq> Panic_nil_dereference
      \<and> fst (Emergency w msg st) \<noteq> Panic_nil_dereference
      \<and> fst (Alert w msg st) \<noteq> Panic_nil_dereference
      \<and> fst (Critical w msg st) \<noteq> Panic_nil_dereference
      \<and> fst (Error w msg st) \<noteq> Panic_nil_dereference
      \<and> fst (Warning w msg st) \<noteq> Panic_nil_dereference
      \<and> fst (Notice w msg st) \<noteq> Panic_nil_dereference
      \<and> fst (Info w msg st) \<noteq> Panic_nil_dereference
      \<and> fst (Debug w msg st) \<noteq> Panic_nil_dereference
      \<and> s (snd (Close w st)) = s st
      \<and> s (snd (Emergency w msg st)) = s st
      \<and> s (snd (Alert w msg st)) = s st
      \<and> s (snd (Critical w msg st)) = s st
      \<and> s (snd (Error w msg st)) = s st
      \<and> s (snd (Warning w msg st)) = s st
      \<and> s (snd (Notice w msg st)) = s st
      \<and> s (snd (Info w msg st)) = s st
      \<and> s (snd (Debug w msg st)) = s st
      \<and> s (SetDebug b st) = s st \<and> s (SetVerbose b st) = s st \<and> s (DisableColor st) = s st"
  proof
    assume "s st \<noteq> None"
    then obtain h where h: "s st = Some h" by auto
    have h': "s (PrintToScreen w level msg st) = Some h" for level
      using h by (simp add: PrintToScreen_fields)
    show "fst (Close w st) \<noteq> Panic_nil_dereference
      \<and> fst (Emergency w msg st) \<noteq> Panic_nil_dereference
      \<and> fst (Alert w msg st) \<noteq> Panic_nil_dereference
      \<and> fst (Critical w msg st) \<noteq> Panic_nil_dereference
      \<and> fst (Error w msg st) \<noteq> Panic_nil_dereference
      \<and> fst (Warning w msg st) \<noteq> Panic_nil_dereference
      \<and> fst (Notice w msg st) \<noteq> Panic_nil_dereference
      \<and> fst (Info w msg st) \<noteq> Panic_nil_dereference
      \<and> fst (Debug w msg st) \<noteq> Panic_nil_dereference
      \<and> s (snd (Close w st)) = s st
      \<and> s (snd (Emergency w msg st)) = s st
      \<and> s (snd (Alert w msg st)) = s st
      \<and> s (snd (Critical w msg st)) = s st
      \<and> s (snd (Error w msg st)) = s st
      \<and> s (snd (Warning w msg st)) = s st
      \<and> s (snd (Notice w msg st)) = s st
      \<and> s (snd (Info w msg st)) = s st
      \<and> s (snd (Debug w msg st)) = s st
      \<and> s (SetDebug b st) = s st \<and> s (SetVerbose b st) = s st \<and> s (DisableColor st) = s st"
      using h
      by (simp add: Close_def Emergency_def Alert_def Critical_def Error_def Warning_def
          Notice_def Info_def Debug_def s_log_Some [OF h] s_log_Some [OF h']
          PrintToScreen_fields SetDebug_def SetVerbose_def DisableColor_def emit_def)
  qed
next
  show "s st = None \<longrightarrow>
        fst (Close w st) = Panic_nil_dereference
      \<and> fst (Emergency w msg st) = Panic_nil_dereference
      \<and> (\<not> debug st \<longrightarrow>
            fst (Alert w msg st) = Panic_nil_dereference
          \<and> fst (Critical w msg st) = Panic_nil_dereference
          \<and> fst (Error w msg st) = Panic_nil_dereference
          \<and> fst (Warning w msg st) = Panic_nil_dereference
          \<and> fst (Notice w msg st) = Panic_nil_dereference)
      \<and> (verbose st \<and> \<not> debug st \<longrightarrow>
            fst (Info w msg st) = Panic_nil_dereference
          \<and> fst (Debug w msg st) = Panic_nil_dereference)"
    by (simp add: Close_def Emergency_def Alert_def Critical_def Error_def Warning_def
        Notice_def Info_def Debug_def s_log_None PrintToScreen_fields)
qed

theorem C9_present_writer_witness:
  "fst (Open example_world ''svc'' init_state) = None \<and>
   s (snd (Open example_world ''svc'' init_state)) = Some 1 \<and>
   fst (Close example_world (snd (Open example_world ''svc'' init_state))) = Return None \<and>
   fst (Emergency example_world ''x'' (snd (Open example_world ''svc'' init_state))) =
     Return (Some (foreign_error 5)) \<and>
   s (init_state\<lparr>verbose := True\<rparr>) = None \<and> verbose (init_state\<lparr>verbose := True\<rparr>) \<and>
   \<not> debug (init_state\<lparr>verbose := True\<rparr>) \<and>
   fst (Close example_world (init_state\<lparr>verbose := True\<rparr>)) = Panic_nil_dereference \<and>
   fst (Notice example_world ''x'' (init_state\<lparr>verbose := True\<rparr>)) = Panic_nil_dereference \<and>
   fst (Info example_world ''x'' (init_state\<lparr>verbose := True\<rparr>)) = Panic_nil_dereference"
proof -
  have st: "Open example_world ''svc'' init_state =
     (None, init_state\<lparr>s := Some 1, debug := False, verbose := False, color := True,
        effects := [Call_syslog_New 28 ''svc'', Call_Getenv ''TERM'', Call_IsTerminal 1]\<rparr>)"
    by (simp add: Open_def emit_def ex_simps priority_value)
  from
    C9_present_writer_never_nil_dereference
      [where w = example_world and tag = "''svc''" and st = init_state and msg = "''x''"
         and b = True]
    C9_present_writer_never_nil_dereference
      [where w = example_world and msg = "''x''" and tag = "''svc''" and b = True
         and st = "snd (Open example_world ''svc'' init_state)"]
    C9_present_writer_never_nil_dereference
      [where w = example_world and msg = "''x''" and tag = "''svc''" and b = True
         and st = "init_state\<lparr>verbose := True\<rparr>"]
  show ?thesis
    by (simp add: st Close_def Emergency_def s_log_def PrintToScreen_eq emit_def
        example_world_fields init_state_fields)
qed

text \<open>
  Claim C10. Whenever \<open>Open\<close> returns an error, for the empty tag or for a failed
  connection, \<open>color\<close> keeps its value and \<open>Open\<close> has asked nothing about the terminal:
  no read of \<^verbatim>\<open>TERM\<close>, no \<^verbatim>\<open>IsTerminal\<close>, no \<^verbatim>\<open>IsCygwinTerminal\<close>.
\<close>

theorem C10_failed_Open_keeps_color:
  assumes "fst (Open w tag st) = Some e"
  shows "color (snd (Open w tag st)) = color st
    \<and> terminal_queries (effects (snd (Open w tag st))) = terminal_queries (effects st)"
proof (cases rule: Open_cases [where tag = tag and w = w])
  case empty
  then show ?thesis by (simp add: Open_empty_tag)
next
  case (fails e')
  then show ?thesis by (simp add: Open_connect_fails terminal_queries_def)
next
  case (connects h)
  from Open_connect_succeeds [OF connects, of st] assms show ?thesis by simp
qed

theorem C10_failed_Open_witness:
  "fst (Open example_world [] init_state) = Some (errors_New ''logger: tag cannot be empty'') \<and>
   color (snd (Open example_world [] init_state)) = color init_state \<and>
   fst (Open (example_world\<lparr>syslog_New := \<lambda>p tag. Inl (foreign_error 2),
                             os_Getenv := \<lambda>k. ''dumb''\<rparr>) ''svc'' init_state) =
     Some (foreign_error 2) \<and>
   color (snd (Open (example_world\<lparr>syslog_New := \<lambda>p tag. Inl (foreign_error 2),
                                   os_Getenv := \<lambda>k. ''dumb''\<rparr>) ''svc'' init_state)) \<and>
   terminal_queries (effects (snd (Open (example_world\<lparr>syslog_New := \<lambda>p tag. Inl (foreign_error 2),
                                   os_Getenv := \<lambda>k. ''dumb''\<rparr>) ''svc'' init_state))) = []"
proof -
  have a: "fst (Open example_world [] init_state) =
      Some (errors_New ''logger: tag cannot be empty'')"
    by (simp add: Open_def)
  have b: "fst (Open (example_world\<lparr>syslog_New := \<lambda>p tag. Inl (foreign_error 2),
                             os_Getenv := \<lambda>k. ''dumb''\<rparr>) ''svc'' init_state) =
     Some (foreign_error 2)"
    by (simp add: Open_def emit_def)
  from C10_failed_Open_keeps_color [OF a] C10_failed_Open_keeps_color [OF b] a b
  show ?thesis by (simp add: init_state_def terminal_queries_def)
qed

end
